theory Spec2Isabelle
  imports Complex_Main
begin

section \<open>Arrays and errors\<close>

text \<open>
  A one-dimensional numpy array of floats is a list of reals, a two-dimensional one is the
  list of its rows (all of one length). Floating-point numbers are read as the reals they
  denote, except for \<open>shekel\<close>, which is given once for any arithmetic and read both
  over the reals and in float64; a \<open>nan\<close> that numpy produces for the mean of an empty
  axis is the value \<open>None\<close>.
  Every exception the modelled code can raise is a constructor of \<open>error\<close>.
\<close>

type_synonym vec = "real list"
type_synonym matrix = "real list list"

datatype error = IndexError | ValueError | AttributeError | NameError

text \<open>\<open>X[:, j]\<close>: column \<open>j\<close> of a matrix; numpy raises IndexError when the matrix has
  no such column.\<close>

definition column :: "'a list list \<Rightarrow> nat \<Rightarrow> error + 'a list" where
  "column X j = (if list_all (\<lambda>r. j < length r) X then Inr (map (\<lambda>r. r ! j) X) else Inl IndexError)"

text \<open>\<open>np.column_stack((x, y))\<close>: the matrix whose columns are \<open>x\<close> and \<open>y\<close>.\<close>

definition column_stack :: "vec \<Rightarrow> vec \<Rightarrow> matrix" where
  "column_stack x y = map2 (\<lambda>a b. [a, b]) x y"

text \<open>Elementwise operations on arrays of one shape, and operations with a scalar.\<close>

definition np_power :: "vec \<Rightarrow> nat \<Rightarrow> vec" where
  "np_power v n = map (\<lambda>a. a ^ n) v"

definition vadd :: "vec \<Rightarrow> vec \<Rightarrow> vec" where
  "vadd u v = map2 (+) u v"

definition vmul :: "vec \<Rightarrow> vec \<Rightarrow> vec" where
  "vmul u v = map2 (*) u v"

definition sadd :: "real \<Rightarrow> vec \<Rightarrow> vec" where
  "sadd c v = map (\<lambda>a. c + a) v"

definition smul :: "real \<Rightarrow> vec \<Rightarrow> vec" where
  "smul c v = map (\<lambda>a. c * a) v"

definition vdivs :: "vec \<Rightarrow> real \<Rightarrow> vec" where
  "vdivs v c = map (\<lambda>a. a / c) v"

text \<open>\<open>np.mean\<close> of a one-dimensional array; of an empty one it is \<open>nan\<close>.\<close>

definition np_mean :: "vec \<Rightarrow> real option" where
  "np_mean v = (if v = [] then None else Some (sum_list v / real (length v)))"

text \<open>\<open>np.std\<close>: the square root of the mean squared deviation from the mean.\<close>

definition np_std :: "vec \<Rightarrow> real option" where
  "np_std v = (case np_mean v of None \<Rightarrow> None
     | Some mu \<Rightarrow> (case np_mean (map (\<lambda>a. (a - mu) ^ 2) v) of None \<Rightarrow> None
         | Some s \<Rightarrow> Some (sqrt s)))"

text \<open>numpy broadcasting of two one-dimensional operands: equal lengths, or one of them
  of length one, which is repeated; anything else raises ValueError.\<close>

definition broadcast :: "vec \<Rightarrow> vec \<Rightarrow> error + (vec \<times> vec)" where
  "broadcast x y =
     (if length x = length y then Inr (x, y)
      else if length x = 1 then Inr (replicate (length y) (hd x), y)
      else if length y = 1 then Inr (x, replicate (length x) (hd y))
      else Inl ValueError)"

section \<open>Benchmark target functions (tests/integration_tests/test_functions.py)\<close>

subsection \<open>ackley_nd\<close>

text \<open>\<open>np.atleast_2d\<close>: a one-dimensional input becomes a matrix of one row.\<close>

datatype ndarray12 = Arr1 vec | Arr2 matrix

fun atleast_2d :: "ndarray12 \<Rightarrow> matrix" where
  "atleast_2d (Arr1 v) = [v]"
| "atleast_2d (Arr2 X) = X"

text \<open>The means are taken along axis 1, that is row by row; the result has one entry per
  row, \<open>None\<close> where a mean is \<open>nan\<close> (a row with no entry).\<close>

definition ackley_nd :: "ndarray12 \<Rightarrow> real \<Rightarrow> real \<Rightarrow> real \<Rightarrow> real option list" where
  "ackley_nd x_mx0 a b c =
     (let x_mx = atleast_2d x_mx0 in
      map (\<lambda>row.
        case np_mean (map (\<lambda>v. v ^ 2) row) of None \<Rightarrow> None
        | Some m1 \<Rightarrow>
          (case np_mean (map (\<lambda>v. cos (c * v)) row) of None \<Rightarrow> None
           | Some m2 \<Rightarrow>
             (let t1 = - a * exp (- b * sqrt m1);
                  t2 = - exp m2
              in Some (t1 + t2 + a + exp 1)))) x_mx)"

text \<open>The defaults of the signature: \<open>a = 20.0\<close>, \<open>b = 0.2\<close>, \<open>c = 2 * np.pi\<close>.\<close>

definition ackley_nd_default :: "ndarray12 \<Rightarrow> real option list" where
  "ackley_nd_default x_mx = ackley_nd x_mx 20 (2 / 10) (2 * pi)"

subsection \<open>six_hump_camel_2D and six_hump_camel_2D_2input\<close>

definition six_hump_camel_2D :: "matrix \<Rightarrow> error + vec" where
  "six_hump_camel_2D X =
     (case column X 0 of Inl e \<Rightarrow> Inl e
      | Inr x \<Rightarrow>
        (case column X 1 of Inl e \<Rightarrow> Inl e
         | Inr y \<Rightarrow>
           (let x2 = np_power x 2;
                x4 = np_power x 4;
                y2 = np_power y 2
            in Inr (vadd (vadd (vmul (vadd (sadd 4 (smul (- (21 / 10)) x2)) (vdivs x4 3)) x2)
                               (vmul x y))
                         (vmul (sadd (- 4) (smul 4 y2)) y2)))))"

definition six_hump_camel_2D_2input :: "vec \<Rightarrow> vec \<Rightarrow> error + vec" where
  "six_hump_camel_2D_2input x0 y0 =
     (case broadcast x0 y0 of Inl e \<Rightarrow> Inl e
      | Inr (x, y) \<Rightarrow>
        (let x2 = np_power x 2;
             x4 = np_power x 4;
             y2 = np_power y 2
         in Inr (vadd (vadd (vmul (vadd (sadd 4 (smul (- (21 / 10)) x2)) (vdivs x4 3)) x2)
                            (vmul x y))
                      (vmul (sadd (- 4) (smul 4 y2)) y2))))"

subsection \<open>shekel\<close>

text \<open>
  The arithmetic that \<open>shekel\<close> runs in: the four operations and the value of a decimal
  literal, given as the quotient of two integers. Over the reals the operations are exact.
\<close>

record 'a arith =
  f_add :: "'a \<Rightarrow> 'a \<Rightarrow> 'a"
  f_sub :: "'a \<Rightarrow> 'a \<Rightarrow> 'a"
  f_mul :: "'a \<Rightarrow> 'a \<Rightarrow> 'a"
  f_div :: "'a \<Rightarrow> 'a \<Rightarrow> 'a"
  f_lit :: "int \<Rightarrow> int \<Rightarrow> 'a"

definition real_arith :: "real arith" where
  "real_arith = \<lparr> f_add = (+), f_sub = (-), f_mul = (*), f_div = (/),
                   f_lit = (\<lambda>p q. of_int p / of_int q) \<rparr>"

text \<open>
  float64, the type of the arrays numpy builds from Python floats. \<open>F64 m e\<close> is the number
  \<open>m * 2 ^ e\<close>; a number other than zero is kept with a mantissa of exactly 53 binary
  digits, zero as \<open>F64 0 0\<close>. Every operation gives the exact result rounded to 53 digits,
  to the nearest and to the even mantissa on a tie. The range of the exponent is not
  bounded: overflow, subnormal numbers, infinities and \<open>nan\<close> are left out (the values of
  \<open>shekel\<close> on inputs of moderate size are far from them).
\<close>

datatype f64 = F64 int int

text \<open>The number of binary digits of a positive integer.\<close>

function bitlen :: "int \<Rightarrow> nat" where
  "bitlen n = (if n \<le> 0 then 0 else Suc (bitlen (n div 2)))"
  by pat_completeness auto
termination
  by (relation "measure nat") auto

declare bitlen.simps [simp del]

text \<open>\<open>round_f64 m e\<close>: the float64 nearest to \<open>m * 2 ^ e\<close>.\<close>

definition round_f64 :: "int \<Rightarrow> int \<Rightarrow> f64" where
  "round_f64 m e =
     (if m = 0 then F64 0 0
      else
        (let a = \<bar>m\<bar>; L = bitlen a in
         if L \<le> 53 then F64 (sgn m * (a * 2 ^ (53 - L))) (e - int (53 - L))
         else
           (let k = L - 53;
                q = a div 2 ^ k;
                r = a mod 2 ^ k;
                h = 2 ^ (k - 1);
                q' = (if r < h then q else if h < r then q + 1 else if even q then q else q + 1)
            in if q' = 2 ^ 53 then F64 (sgn m * 2 ^ 52) (e + int k + 1)
               else F64 (sgn m * q') (e + int k))))"

fun f64_add :: "f64 \<Rightarrow> f64 \<Rightarrow> f64" where
  "f64_add (F64 m1 e1) (F64 m2 e2) =
     (let e = min e1 e2 in round_f64 (m1 * 2 ^ nat (e1 - e) + m2 * 2 ^ nat (e2 - e)) e)"

fun f64_sub :: "f64 \<Rightarrow> f64 \<Rightarrow> f64" where
  "f64_sub (F64 m1 e1) (F64 m2 e2) =
     (let e = min e1 e2 in round_f64 (m1 * 2 ^ nat (e1 - e) - m2 * 2 ^ nat (e2 - e)) e)"

fun f64_mul :: "f64 \<Rightarrow> f64 \<Rightarrow> f64" where
  "f64_mul (F64 m1 e1) (F64 m2 e2) = round_f64 (m1 * m2) (e1 + e2)"

text \<open>
  Division: the quotient of the mantissas is taken to 55 binary digits or more and given
  one more digit that says whether a remainder is left, so that rounding it rounds the
  exact quotient. A division by zero gives \<open>inf\<close> with a warning in numpy; it does not
  occur in \<open>shekel\<close>, whose divisors are sums of squares and a positive \<open>b[i]\<close>, and is
  \<open>F64 0 0\<close> here.
\<close>

fun f64_div :: "f64 \<Rightarrow> f64 \<Rightarrow> f64" where
  "f64_div (F64 m1 e1) (F64 m2 e2) =
     (if m2 = 0 then F64 0 0
      else
        (let k = 55 + bitlen \<bar>m2\<bar>;
             n = (\<bar>m1\<bar> * 2 ^ k) div \<bar>m2\<bar>;
             s = (if (\<bar>m1\<bar> * 2 ^ k) mod \<bar>m2\<bar> = 0 then 0 else 1)
         in round_f64 (sgn m1 * sgn m2 * (2 * n + s)) (e1 - e2 - int k - 1)))"

text \<open>A decimal literal \<open>p / q\<close> is the float64 nearest to it.\<close>

definition f64_arith :: "f64 arith" where
  "f64_arith = \<lparr> f_add = f64_add, f_sub = f64_sub, f_mul = f64_mul, f_div = f64_div,
                  f_lit = (\<lambda>p q. f64_div (round_f64 p 0) (round_f64 q 0)) \<rparr>"

text \<open>\<open>b = 0.1 * np.array([1, 2, 2, 4, 4, 6, 3, 7, 5, 5])\<close> and the matrix \<open>C\<close>, whose
  entries are written as quotients (\<open>3.6\<close> is \<open>36 / 10\<close>).\<close>

definition shekel_b :: "'a arith \<Rightarrow> 'a list" where
  "shekel_b ar =
     map (\<lambda>k. f_mul ar (f_lit ar 1 10) (f_lit ar k 1)) [1, 2, 2, 4, 4, 6, 3, 7, 5, 5]"

definition shekel_C :: "'a arith \<Rightarrow> 'a list list" where
  "shekel_C ar = map (map (\<lambda>(p, q). f_lit ar p q))
     [[(4, 1), (1, 1), (8, 1), (6, 1), (3, 1), (2, 1), (5, 1), (8, 1), (6, 1), (7, 1)],
      [(4, 1), (1, 1), (8, 1), (6, 1), (7, 1), (9, 1), (3, 1), (1, 1), (2, 1), (36, 10)],
      [(4, 1), (1, 1), (8, 1), (6, 1), (3, 1), (2, 1), (5, 1), (8, 1), (6, 1), (7, 1)],
      [(4, 1), (1, 1), (8, 1), (6, 1), (7, 1), (9, 1), (3, 1), (1, 1), (2, 1), (36, 10)]]"

text \<open>
  The two nested loops of the source, on whole columns. \<open>inner\<close> and \<open>outer\<close> start as
  the scalar \<open>0\<close>, which the first addition broadcasts to the length of the columns; here
  they start as the zero vector of that length. \<open>xx\<close> is the list of the four columns,
  \<open>np.power(v, 2)\<close> is the product of \<open>v\<close> with itself, and the additions to \<open>inner\<close>
  happen in the order of the columns, \<open>j = 0, 1, 2, 3\<close>.
\<close>

definition shekel_inner :: "'a arith \<Rightarrow> 'a list list \<Rightarrow> nat \<Rightarrow> nat \<Rightarrow> 'a list" where
  "shekel_inner ar xx n i =
     fold (\<lambda>j inner. map2 (f_add ar) inner
              (map (\<lambda>d. f_mul ar d d) (map (\<lambda>a. f_sub ar a (shekel_C ar ! j ! i)) (xx ! j))))
          [0..<4] (replicate n (f_lit ar 0 1))"

definition shekel_outer :: "'a arith \<Rightarrow> 'a list list \<Rightarrow> nat \<Rightarrow> 'a list" where
  "shekel_outer ar xx n =
     fold (\<lambda>i outer. map2 (f_add ar) outer
              (map (\<lambda>a. f_div ar (f_lit ar 1 1) a)
                 (map (\<lambda>a. f_add ar a (shekel_b ar ! i)) (shekel_inner ar xx n i))))
          [0..<10] (replicate n (f_lit ar 0 1))"

definition shekel :: "'a arith \<Rightarrow> 'a list list \<Rightarrow> error + 'a list" where
  "shekel ar X =
     (case column X 0 of Inl e \<Rightarrow> Inl e | Inr x0 \<Rightarrow>
     (case column X 1 of Inl e \<Rightarrow> Inl e | Inr x1 \<Rightarrow>
     (case column X 2 of Inl e \<Rightarrow> Inl e | Inr x2 \<Rightarrow>
     (case column X 3 of Inl e \<Rightarrow> Inl e | Inr x3 \<Rightarrow>
        Inr (map (\<lambda>a. f_mul ar (f_lit ar (- 1) 1) a)
               (shekel_outer ar [x0, x1, x2, x3] (length X)))))))"

text \<open>Exchanging two columns of a matrix.\<close>

definition swap_columns :: "nat \<Rightarrow> nat \<Rightarrow> 'a list list \<Rightarrow> 'a list list" where
  "swap_columns i j X = map (\<lambda>r. r[i := r ! j, j := r ! i]) X"

section \<open>Shared numeric helper normal_sp (surrogate_model.py)\<close>

text \<open>\<open>tf.math.softplus\<close> is \<open>log (1 + exp x)\<close>.\<close>

definition softplus :: "real \<Rightarrow> real" where
  "softplus x = ln (1 + exp x)"

text \<open>\<open>params[:, lo:hi]\<close>: a slice of the columns; a slice never raises, it is shorter
  (or empty) where the matrix has fewer columns.\<close>

definition slice_columns :: "matrix \<Rightarrow> nat \<Rightarrow> nat \<Rightarrow> matrix" where
  "slice_columns X lo hi = map (\<lambda>r. take (hi - lo) (drop lo r)) X"

text \<open>The parameters of \<open>tfd.Normal\<close>.\<close>

record Normal =
  loc :: matrix
  scale :: matrix

definition normal_sp :: "matrix \<Rightarrow> Normal" where
  "normal_sp params =
     \<lparr> loc = slice_columns params 0 1,
       scale = map (map (\<lambda>v. 1 / 1000 + softplus ((5 / 100) * v))) (slice_columns params 1 2) \<rparr>"

section \<open>Neural-network surrogates\<close>

text \<open>
  A compiled keras model is a value of an abstract type \<open>'m\<close>; \<open>self.model\<close> is \<open>None\<close>
  or such a model, and \<open>if self.model:\<close> holds exactly for a model. The forward pass
  \<open>self.model.predict(X)\<close> is a parameter of the definitions: a function of the model and
  the input for the deterministic network, and of the model, the number of the call and
  the input for the networks whose output layer samples from a distribution.
  A method that returns without a \<open>return\<close> statement returns \<open>None\<close>.
\<close>

subsection \<open>NN (surrogate_model.py) and Vanilla_NN (surrogating/surrogate_model.py)\<close>

record 'm NN =
  NN_model :: "'m option"

definition NN_predict :: "('m \<Rightarrow> matrix \<Rightarrow> matrix) \<Rightarrow> 'm NN \<Rightarrow> ndarray12 \<Rightarrow> matrix option" where
  "NN_predict keras_predict self X =
     (case NN_model self of
        None \<Rightarrow> None
      | Some m \<Rightarrow>
          (let X' = (case X of Arr1 v \<Rightarrow> [v] | Arr2 M \<Rightarrow> M);
               preds = keras_predict m X'
           in Some preds))"

record 'm Vanilla_NN =
  Vanilla_NN_model :: "'m option"
  Vanilla_NN_epochs :: nat
  Vanilla_NN_batch_size :: nat
  Vanilla_NN_preds :: "matrix option"

text \<open>\<open>Vanilla_NN.predict\<close> also keeps the prediction on the instance, so it returns
  the instance with the result.\<close>

definition Vanilla_NN_predict ::
  "('m \<Rightarrow> matrix \<Rightarrow> matrix) \<Rightarrow> 'm Vanilla_NN \<Rightarrow> ndarray12 \<Rightarrow> 'm Vanilla_NN \<times> matrix option" where
  "Vanilla_NN_predict keras_predict self X =
     (case Vanilla_NN_model self of
        None \<Rightarrow> (self, None)
      | Some m \<Rightarrow>
          (let X' = (case X of Arr1 v \<Rightarrow> [v] | Arr2 M \<Rightarrow> M);
               self' = self\<lparr>Vanilla_NN_preds := Some (keras_predict m X')\<rparr>
           in (self', Vanilla_NN_preds self')))"

subsection \<open>Prob_NN and Bayesian_NN (surrogate_model.py), Vanilla_BayesianNN\<close>

text \<open>\<open>np.reshape(y_, (n))\<close>: the entries in row-major order, ValueError when there are
  not \<open>n\<close> of them.\<close>

definition np_reshape_1d :: "matrix \<Rightarrow> nat \<Rightarrow> error + vec" where
  "np_reshape_1d y n = (if length (concat y) = n then Inr (concat y) else Inl ValueError)"

text \<open>\<open>preds[:, i] = v\<close>.\<close>

definition set_column :: "matrix \<Rightarrow> nat \<Rightarrow> vec \<Rightarrow> matrix" where
  "set_column P i v = map2 (\<lambda>row a. row[i := a]) P v"

text \<open>The loop \<open>for i in range(iterations)\<close> of the three \<open>predict\<close> methods: pass \<open>i\<close>
  fills column \<open>i\<close> of \<open>preds\<close>.\<close>

fun sample_loop :: "(nat \<Rightarrow> matrix) \<Rightarrow> nat \<Rightarrow> nat list \<Rightarrow> matrix \<Rightarrow> error + matrix" where
  "sample_loop forward n [] preds = Inr preds"
| "sample_loop forward n (i # rest) preds =
     (case np_reshape_1d (forward i) n of
        Inl e \<Rightarrow> Inl e
      | Inr y \<Rightarrow> sample_loop forward n rest (set_column preds i y))"

text \<open>What \<open>predict\<close> returns: the pair \<open>(mean, stdv)\<close> or the triple with the samples.\<close>

datatype predict_result =
    MeanStd "real option list" "real option list"
  | MeanStdSamples "real option list" "real option list" matrix

record 'm Prob_NN =
  Prob_NN_model :: "'m option"

text \<open>
  Under \<open>if return_samples:\<close> the source has the expression statement
  \<open>mean, stdv, preds\<close>: it builds the triple and drops it (\<open>discarded\<close> below); the
  statement after the \<open>if\<close> is \<open>return mean, stdv\<close>.
\<close>

definition Prob_NN_predict ::
  "('m \<Rightarrow> nat \<Rightarrow> matrix \<Rightarrow> matrix) \<Rightarrow> 'm Prob_NN \<Rightarrow> matrix \<Rightarrow> nat \<Rightarrow> bool
     \<Rightarrow> error + predict_result option" where
  "Prob_NN_predict keras_predict self X iterations return_samples =
     (case Prob_NN_model self of
        None \<Rightarrow> Inr None
      | Some m \<Rightarrow>
          (case sample_loop (\<lambda>i. keras_predict m i X) (length X) [0..<iterations]
                  (replicate (length X) (replicate iterations 0)) of
             Inl e \<Rightarrow> Inl e
           | Inr preds \<Rightarrow>
               (let mean = map np_mean preds;
                    stdv = map np_std preds;
                    discarded = (if return_samples then Some (mean, stdv, preds) else None)
                in Inr (Some (MeanStd mean stdv)))))"

record 'm Bayesian_NN =
  Bayesian_NN_model :: "'m option"
  Bayesian_NN_X :: "matrix option"
  Bayesian_NN_y :: "vec option"

definition Bayesian_NN_predict ::
  "('m \<Rightarrow> nat \<Rightarrow> matrix \<Rightarrow> matrix) \<Rightarrow> 'm Bayesian_NN \<Rightarrow> matrix \<Rightarrow> nat \<Rightarrow> bool
     \<Rightarrow> error + predict_result option" where
  "Bayesian_NN_predict keras_predict self X iterations return_samples =
     (case Bayesian_NN_model self of
        None \<Rightarrow> Inr None
      | Some m \<Rightarrow>
          (case sample_loop (\<lambda>i. keras_predict m i X) (length X) [0..<iterations]
                  (replicate (length X) (replicate iterations 0)) of
             Inl e \<Rightarrow> Inl e
           | Inr preds \<Rightarrow>
               (let mean = map np_mean preds;
                    stdv = map np_std preds;
                    discarded = (if return_samples then Some (mean, stdv, preds) else None)
                in Inr (Some (MeanStd mean stdv)))))"

record 'm Vanilla_BayesianNN =
  Vanilla_BayesianNN_model :: "'m option"
  Vanilla_BayesianNN_predictions :: "matrix option"

text \<open>\<open>Vanilla_BayesianNN.predict\<close> has no \<open>return_samples\<close>; it keeps the samples on
  the instance.\<close>

definition Vanilla_BayesianNN_predict ::
  "('m \<Rightarrow> nat \<Rightarrow> matrix \<Rightarrow> matrix) \<Rightarrow> 'm Vanilla_BayesianNN \<Rightarrow> matrix \<Rightarrow> nat
     \<Rightarrow> 'm Vanilla_BayesianNN \<times> (error + predict_result option)" where
  "Vanilla_BayesianNN_predict keras_predict self X iterations =
     (case Vanilla_BayesianNN_model self of
        None \<Rightarrow> (self, Inr None)
      | Some m \<Rightarrow>
          (case sample_loop (\<lambda>i. keras_predict m i X) (length X) [0..<iterations]
                  (replicate (length X) (replicate iterations 0)) of
             Inl e \<Rightarrow> (self, Inl e)
           | Inr preds \<Rightarrow>
               (let mean = map np_mean preds;
                    stdv = map np_std preds
                in (self\<lparr>Vanilla_BayesianNN_predictions := Some preds\<rparr>,
                    Inr (Some (MeanStd mean stdv))))))"


section \<open>The classical Gaussian Process surrogate\<close>

text \<open>
  \<open>GaussianProcess\<close> (surrogate_model.py) and \<open>VanillaGaussianProcess\<close>
  (surrogating/surrogate_model.py) have the same body up to the name of the class; the
  definitions of this section are both.
\<close>

subsection \<open>numpy arrays with a shape\<close>

text \<open>An array of any dimension: its shape and its entries in row-major order.
  \<open>ndim\<close> is the length of the shape, the number of rows is \<open>shape[0]\<close>.\<close>

record ndarray =
  shape :: "nat list"
  entries :: "real list"





subsection \<open>Kernels of the regression library\<close>

text \<open>
  The kernels of \<open>sklearn.gaussian_process.kernels\<close> that the module imports or builds:
  \<open>1.0 * RBF(1.0)\<close> is \<open>Product (ConstantKernel 1) (RBF 1)\<close>, and \<open>+\<close> is \<open>Sum\<close>.
  The argument of a leaf is its hyperparameter (length scale, noise level, constant value);
  the bounds of the hyperparameters are left out.
\<close>

datatype kernel =
    RBF real
  | WhiteKernel real
  | ConstantKernel real
  | Sum kernel kernel
  | Product kernel kernel

text \<open>\<open>list(vars(k).keys())\<close>: the names of the instance attributes, in the order the
  constructor sets them.\<close>

fun vars_keys :: "kernel \<Rightarrow> string list" where
  "vars_keys (RBF l) = [''length_scale'', ''length_scale_bounds'']"
| "vars_keys (WhiteKernel n) = [''noise_level'', ''noise_level_bounds'']"
| "vars_keys (ConstantKernel c) = [''constant_value'', ''constant_value_bounds'']"
| "vars_keys (Sum a b) = [''k1'', ''k2'']"
| "vars_keys (Product a b) = [''k1'', ''k2'']"

text \<open>\<open>re.match("^k[0-9]", attr)\<close>.\<close>

fun match_k_digit :: "string \<Rightarrow> bool" where
  "match_k_digit (c # d # rest) = (c = CHR ''k'' \<and> d \<in> set ''0123456789'')"
| "match_k_digit _ = False"

text \<open>\<open>getattr(k, name)\<close> for a name that \<open>match_k_digit\<close> accepts: the operand of a
  sum or product; \<open>None\<close> is AttributeError (no other kernel has such an attribute).\<close>

fun getattr_kernel :: "kernel \<Rightarrow> string \<Rightarrow> kernel option" where
  "getattr_kernel (Sum a b) name =
     (if name = ''k1'' then Some a else if name = ''k2'' then Some b else None)"
| "getattr_kernel (Product a b) name =
     (if name = ''k1'' then Some a else if name = ''k2'' then Some b else None)"
| "getattr_kernel _ name = None"

text \<open>
  \<open>re.match("^WhiteKernel", str(k))\<close>. The text of a kernel is
  \<open>WhiteKernel(noise_level=...)\<close>, \<open>RBF(length_scale=...)\<close>, a number followed by
  \<open>**2\<close> for a constant, and \<open>{k1} + {k2}\<close>, \<open>{k1} * {k2}\<close> for a sum and a product:
  it starts with the text of the leftmost leaf.
\<close>

fun str_matches_WhiteKernel :: "kernel \<Rightarrow> bool" where
  "str_matches_WhiteKernel (WhiteKernel n) = True"
| "str_matches_WhiteKernel (RBF l) = False"
| "str_matches_WhiteKernel (ConstantKernel c) = False"
| "str_matches_WhiteKernel (Sum a b) = str_matches_WhiteKernel a"
| "str_matches_WhiteKernel (Product a b) = str_matches_WhiteKernel a"

text \<open>\<open>k.noise_level\<close>; \<open>None\<close> is AttributeError.\<close>

fun noise_level :: "kernel \<Rightarrow> real option" where
  "noise_level (WhiteKernel n) = Some n"
| "noise_level _ = None"

text \<open>The value of the class attribute \<open>kernel\<close> when the module is loaded:
  \<open>1.0 * RBF(1.0) + WhiteKernel(1.0, noise_level_bounds=(5e-5, 5e-2))\<close>.\<close>

definition default_kernel :: kernel where
  "default_kernel = Sum (Product (ConstantKernel 1) (RBF 1)) (WhiteKernel 1)"

subsection \<open>The surrogate object\<close>

text \<open>
  \<open>GaussianProcessRegressor\<close>: \<open>kernel_\<close> is the fitted copy of the kernel, absent until
  \<open>fit\<close> has run. Its attribute \<open>kernel\<close> is the very object \<open>self.kernel\<close> that
  \<open>create_model\<close> passes, so it is read through the surrogate (\<open>GP_kernel\<close> below).
\<close>

record GaussianProcessRegressor =
  n_restarts_optimizer :: nat
  kernel_' :: "kernel option"

text \<open>
  The state that the methods read and write. \<open>class_kernel\<close> is the object bound to
  the class attribute \<open>GaussianProcess.kernel\<close>. The default of the constructor's argument
  \<open>kernel\<close> is that same object, so \<open>self.kernel\<close> is either an alias of it
  (\<open>GP_own_kernel = None\<close>) or an object of its own (\<open>Some k\<close>).
\<close>

record GaussianProcess =
  class_kernel :: kernel
  GP_own_kernel :: "kernel option"
  GP_train_restarts :: nat
  GP_model :: "GaussianProcessRegressor option"
  GP_noise_std :: "real option"
  GP_X :: "ndarray option"
  GP_y :: "ndarray option"

text \<open>\<open>self.kernel\<close>, which is also \<open>self.model.kernel\<close>.\<close>

definition GP_kernel :: "GaussianProcess \<Rightarrow> kernel" where
  "GP_kernel self = (case GP_own_kernel self of None \<Rightarrow> class_kernel self | Some k \<Rightarrow> k)"

text \<open>A method either returns or raises; in both cases the object is left in some state.\<close>

datatype 's outcome = Returned 's | Raised error 's

fun state_of :: "'s outcome \<Rightarrow> 's" where
  "state_of (Returned s) = s"
| "state_of (Raised e s) = s"

definition GP_create_model :: "GaussianProcess \<Rightarrow> GaussianProcess" where
  "GP_create_model self =
     self\<lparr>GP_model := Some \<lparr> n_restarts_optimizer = GP_train_restarts self, kernel_' = None \<rparr>\<rparr>"

text \<open>\<open>__init__(train_restarts, kernel)\<close> in a world where the class attribute holds
  \<open>ck\<close>; the argument \<open>None\<close> stands for the default.\<close>

definition GP_init :: "kernel \<Rightarrow> nat \<Rightarrow> kernel option \<Rightarrow> GaussianProcess" where
  "GP_init ck train_restarts kernel_arg =
     GP_create_model
       \<lparr> class_kernel = ck, GP_own_kernel = kernel_arg, GP_train_restarts = train_restarts,
         GP_model = None, GP_noise_std = None, GP_X = None, GP_y = None \<rparr>"

text \<open>The scan of \<open>get_noise\<close>: its loop keeps the attribute names of the class
  attribute \<open>kernel\<close> that look like \<open>k<digit>\<close> and whose value prints as a white kernel.\<close>

definition white_kernel_attr :: "kernel \<Rightarrow> string list" where
  "white_kernel_attr ck =
     filter (\<lambda>attr. match_k_digit attr \<and>
                (case getattr_kernel ck attr of None \<Rightarrow> False
                 | Some attr_val \<Rightarrow> str_matches_WhiteKernel attr_val))
            (vars_keys ck)"

text \<open>The two checks raise ValueError; the last line reads the kernel of the model and
  takes the square root (\<open>** 0.5\<close>) of its noise level.\<close>

definition GP_get_noise :: "GaussianProcess \<Rightarrow> error + real" where
  "GP_get_noise self =
     (let wka = white_kernel_attr (class_kernel self) in
      if length wka = 0 then Inl ValueError
      else if length wka > 1 then Inl ValueError
      else (case GP_model self of
              None \<Rightarrow> Inl AttributeError
            | Some m \<Rightarrow>
                (case getattr_kernel (GP_kernel self) (wka ! 0) of
                   None \<Rightarrow> Inl AttributeError
                 | Some w \<Rightarrow>
                     (case noise_level w of
                        None \<Rightarrow> Inl AttributeError
                      | Some nl \<Rightarrow> Inr (sqrt nl)))))"

text \<open>
  \<open>fit\<close>. The library's \<open>self.model.fit(X, y)\<close> is the parameter \<open>sk_fit\<close>: from the
  kernel and the data it gives the optimised copy of the kernel, which it binds to
  \<open>kernel_\<close>, or it raises. The library binds \<open>kernel_\<close> to a copy of the kernel before
  it validates the data, so a call that raises says as well what it has bound to
  \<open>kernel_\<close> by then: \<open>Some\<close> copy, or \<open>None\<close> when it raised before that and
  \<open>kernel_\<close> is as it was.
\<close>

definition GP_fit ::
  "(kernel \<Rightarrow> ndarray \<Rightarrow> ndarray \<Rightarrow> (error \<times> kernel option) + kernel) \<Rightarrow> GaussianProcess
     \<Rightarrow> ndarray \<Rightarrow> ndarray \<Rightarrow> GaussianProcess outcome" where
  "GP_fit sk_fit self X y =
     (let self1 = self\<lparr>GP_X := Some X, GP_y := Some y\<rparr> in
      case GP_model self1 of
        None \<Rightarrow> Raised AttributeError self1
      | Some m \<Rightarrow>
          (case sk_fit (GP_kernel self1) X y of
             Inl (e, bound) \<Rightarrow>
               Raised e (self1\<lparr>GP_model :=
                 Some (case bound of None \<Rightarrow> m | Some k \<Rightarrow> m\<lparr>kernel_' := Some k\<rparr>)\<rparr>)
           | Inr fitted \<Rightarrow>
               (let self2 = self1\<lparr>GP_model := Some (m\<lparr>kernel_' := Some fitted\<rparr>)\<rparr> in
                case GP_get_noise self2 of
                  Inl e \<Rightarrow> Raised e self2
                | Inr nstd \<Rightarrow> Returned (self2\<lparr>GP_noise_std := Some nstd\<rparr>))))"




section \<open>GaussianProcessRegression.fit (surrogating/surrogate_model.py)\<close>

text \<open>
  What gpytorch and torch contribute to the training loop, for given training data and
  learning rate: a value of \<open>'p\<close> is the state of the model's parameters together with
  the Adam optimizer; \<open>initial\<close> is that state after \<open>create_model\<close> and the creation of
  the optimizer, \<open>loss_of\<close> is the negative marginal log likelihood \<open>loss.item()\<close>,
  \<open>adam_step\<close> is \<open>loss.backward()\<close> with \<open>optimizer.step()\<close>, and \<open>noise_of\<close> is
  \<open>likelihood.noise\<close>.
\<close>

record 'p trainer =
  initial :: 'p
  loss_of :: "'p \<Rightarrow> real"
  adam_step :: "'p \<Rightarrow> 'p"
  noise_of :: "'p \<Rightarrow> real"

text \<open>A float that may be \<open>np.inf\<close>, the first value of \<open>loss_0\<close>; subtracting a
  finite number from \<open>inf\<close> leaves \<open>inf\<close>, and \<open>inf < 0.0\<close> is false.\<close>

datatype pyfloat = Finite real | PInf

fun pf_sub :: "pyfloat \<Rightarrow> real \<Rightarrow> pyfloat" where
  "pf_sub (Finite a) b = Finite (a - b)"
| "pf_sub PInf b = PInf"

fun lt_zero :: "pyfloat \<Rightarrow> bool" where
  "lt_zero (Finite a) = (a < 0)"
| "lt_zero PInf = False"

text \<open>\<open>if self.min_loss_rate:\<close> holds for a float other than zero, not for \<open>None\<close> and
  not for \<open>0.0\<close>.\<close>

fun truthy :: "real option \<Rightarrow> bool" where
  "truthy None = False"
| "truthy (Some r) = (r \<noteq> 0)"

text \<open>\<open>(loss_0 - loss.item()) - self.min_loss_rate * loss.item()\<close> when the guard holds,
  \<open>None\<close> otherwise.\<close>

fun compute_loss_ratio :: "real option \<Rightarrow> pyfloat \<Rightarrow> real \<Rightarrow> pyfloat option" where
  "compute_loss_ratio None l0 l = None"
| "compute_loss_ratio (Some r) l0 l = (if r \<noteq> 0 then Some (pf_sub (pf_sub l0 l) (r * l)) else None)"

text \<open>The variables of the loop. \<open>loss\<close> is unbound (\<open>None\<close>) until the body has run
  once; \<open>steps\<close> counts the runs of the body, each of which calls \<open>optimizer.step()\<close>
  once.\<close>

record 'p loop_vars =
  params :: 'p
  loss_0 :: pyfloat
  loss :: "real option"
  loss_ratio :: "pyfloat option"
  vec_loss :: "real list"
  noise_std :: "real option"
  steps :: nat

text \<open>\<open>for _i in range(training_max_iter)\<close>, the first argument after the rate being
  the number of values of \<open>_i\<close> still to come; \<open>break\<close> leaves the loop before
  \<open>loss_0\<close> is set.\<close>

fun train_loop :: "'p trainer \<Rightarrow> real option \<Rightarrow> nat \<Rightarrow> 'p loop_vars \<Rightarrow> 'p loop_vars" where
  "train_loop t mlr 0 v = v"
| "train_loop t mlr (Suc k) v =
     (let l = loss_of t (params v);
          v1 = v\<lparr>loss := Some l, vec_loss := vec_loss v @ [l],
                 params := adam_step t (params v), steps := Suc (steps v)\<rparr>;
          v2 = v1\<lparr>loss_ratio := compute_loss_ratio mlr (loss_0 v1) l\<rparr>;
          v3 = v2\<lparr>noise_std := Some (sqrt (noise_of t (params v2)))\<rparr>
      in if truthy mlr \<and> (case loss_ratio v3 of None \<Rightarrow> False | Some lr \<Rightarrow> lt_zero lr)
         then v3
         else train_loop t mlr k (v3\<lparr>loss_0 := Finite l\<rparr>))"

text \<open>The object. \<open>GPR_params\<close> stands for \<open>self.model\<close>, \<open>self.likelihood\<close> and
  \<open>self.optimizer\<close>; \<open>GPR_steps\<close> is not an attribute: it records how often the body
  of the loop ran in the last \<open>fit\<close>.\<close>

record 'p GaussianProcessRegression =
  GPR_train_X :: matrix
  GPR_train_y :: vec
  GPR_training_max_iter :: nat
  GPR_learning_rate :: real
  GPR_min_loss_rate :: "real option"
  GPR_noise_std :: "real option"
  GPR_vec_loss :: "real list option"
  GPR_params :: "'p option"
  GPR_steps :: nat

text \<open>
  \<open>fit(train_X=None, train_y=None)\<close>: the stored data is replaced when both arguments
  are given; \<open>create_model\<close> raises ValueError when the numbers of rows differ; the loop
  runs; the \<open>print\<close> after the loop reads \<open>loss\<close>, which is unbound (a NameError) when
  the body never ran.
\<close>

definition GPR_fit ::
  "(matrix \<Rightarrow> vec \<Rightarrow> real \<Rightarrow> 'p trainer) \<Rightarrow> 'p GaussianProcessRegression
     \<Rightarrow> matrix option \<Rightarrow> vec option \<Rightarrow> 'p GaussianProcessRegression outcome" where
  "GPR_fit backend self train_X train_y =
     (let self1 = (case (train_X, train_y) of
                     (Some X, Some y) \<Rightarrow> self\<lparr>GPR_train_X := X, GPR_train_y := y\<rparr>
                   | _ \<Rightarrow> self) in
      if length (GPR_train_y self1) \<noteq> length (GPR_train_X self1)
      then Raised ValueError (self1\<lparr>GPR_steps := 0\<rparr>)
      else
        (let t = backend (GPR_train_X self1) (GPR_train_y self1) (GPR_learning_rate self1);
             v = train_loop t (GPR_min_loss_rate self1) (GPR_training_max_iter self1)
                   \<lparr> params = initial t, loss_0 = PInf, loss = None, loss_ratio = None,
                     vec_loss = [], noise_std = GPR_noise_std self1, steps = 0 \<rparr>;
             self2 = self1\<lparr>GPR_vec_loss := Some (vec_loss v), GPR_noise_std := noise_std v,
                            GPR_params := Some (params v), GPR_steps := steps v\<rparr>
         in (case loss v of
               None \<Rightarrow> Raised NameError self2
             | Some l \<Rightarrow> Returned self2)))"

text \<open>
  The quantities the specification of the loop speaks about: the loss of iteration \<open>i\<close>
  (counted from 0) when no iteration before it has left the loop, and the loss ratio of
  that iteration for a rate \<open>r\<close>, where the loss before the first iteration is \<open>inf\<close>.
\<close>

definition loss_at :: "'p trainer \<Rightarrow> nat \<Rightarrow> real" where
  "loss_at t i = loss_of t ((adam_step t ^^ i) (initial t))"

fun loss_ratio_at :: "'p trainer \<Rightarrow> real \<Rightarrow> nat \<Rightarrow> pyfloat" where
  "loss_ratio_at t r 0 = pf_sub (pf_sub PInf (loss_at t 0)) (r * loss_at t 0)"
| "loss_ratio_at t r (Suc j) =
     pf_sub (pf_sub (Finite (loss_at t j)) (loss_at t (Suc j))) (r * loss_at t (Suc j))"


section \<open>The capability flag is_probabilistic\<close>

text \<open>
  The surrogate classes of the two modules; the classes of surrogate_model.py carry the
  prefix \<open>Legacy\<close>, those of surrogating/surrogate_model.py their own name.
\<close>

datatype surrogate_class =
    Legacy_GaussianProcess
  | Legacy_GaussianProcessTFP
  | Legacy_ModelListGaussianProcess
  | Legacy_BatchIndependentGaussianProcess
  | Legacy_MultiTaskGaussianProcess
  | Legacy_NN
  | Legacy_Prob_NN
  | Legacy_Bayesian_NN
  | VanillaGaussianProcess
  | GaussianProcessTFP
  | GaussianProcessRegression
  | ModelListGaussianProcess
  | BatchIndependentGaussianProcess
  | MultiTaskGaussianProcess
  | DeepKernelMultiTaskGaussianProcess
  | Vanilla_NN
  | Vanilla_BayesianNN

datatype operation = create_model | fit | predict | update

text \<open>The value of the class attribute \<open>is_probabilistic\<close> in the body of each class.\<close>

fun class_is_probabilistic :: "surrogate_class \<Rightarrow> bool" where
  "class_is_probabilistic Legacy_GaussianProcess = True"
| "class_is_probabilistic Legacy_GaussianProcessTFP = True"
| "class_is_probabilistic Legacy_ModelListGaussianProcess = True"
| "class_is_probabilistic Legacy_BatchIndependentGaussianProcess = True"
| "class_is_probabilistic Legacy_MultiTaskGaussianProcess = True"
| "class_is_probabilistic Legacy_NN = False"
| "class_is_probabilistic Legacy_Prob_NN = True"
| "class_is_probabilistic Legacy_Bayesian_NN = True"
| "class_is_probabilistic VanillaGaussianProcess = True"
| "class_is_probabilistic GaussianProcessTFP = True"
| "class_is_probabilistic GaussianProcessRegression = True"
| "class_is_probabilistic ModelListGaussianProcess = True"
| "class_is_probabilistic BatchIndependentGaussianProcess = True"
| "class_is_probabilistic MultiTaskGaussianProcess = True"
| "class_is_probabilistic DeepKernelMultiTaskGaussianProcess = True"
| "class_is_probabilistic Vanilla_NN = False"
| "class_is_probabilistic Vanilla_BayesianNN = True"

text \<open>The families of the specification: every class is a Gaussian process family, a
  Bayesian or heteroscedastic network, or a deterministic network.\<close>

fun deterministic_NN :: "surrogate_class \<Rightarrow> bool" where
  "deterministic_NN Legacy_NN = True"
| "deterministic_NN Vanilla_NN = True"
| "deterministic_NN _ = False"

text \<open>
  The instance attributes that each method assigns (\<open>self.name = ...\<close>), those of the
  methods it calls on \<open>self\<close> included: \<open>fit\<close> of the torch-based families calls
  \<open>create_model\<close>, \<open>fit\<close> of the TFP family calls \<open>optimize_parameters\<close>, and
  \<open>update\<close> calls \<open>fit\<close> or both. The last four equations of \<open>assigns\<close> are the
  eight torch-based families (the legacy and the later \<open>ModelListGaussianProcess\<close>,
  \<open>BatchIndependentGaussianProcess\<close> and \<open>MultiTaskGaussianProcess\<close>,
  \<open>GaussianProcessRegression\<close> and \<open>DeepKernelMultiTaskGaussianProcess\<close>), whose methods
  assign the same attributes.
\<close>

definition torch_create_model :: "string list" where
  "torch_create_model = [''optimizer'', ''likelihood'', ''model'']"

definition torch_fit :: "string list" where
  "torch_fit = [''train_X'', ''train_y''] @ torch_create_model
     @ [''optimizer'', ''mll'', ''vec_loss'', ''noise_std'']"

definition torch_predict :: "string list" where
  "torch_predict = [''prediction'', ''mean'', ''var'', ''std'', ''cr_l'', ''cr_u'']"

definition tfp_fit :: "string list" where
  "tfp_fit = [''observation_index_points'', ''observations'', ''amplitude_var'',
     ''length_scale_var'', ''observation_noise_variance_var'', ''kernel'']"

definition sklearn_fit :: "string list" where
  "sklearn_fit = [''X'', ''y'', ''noise_std'']"

fun assigns :: "surrogate_class \<Rightarrow> operation \<Rightarrow> string list" where
  "assigns Legacy_GaussianProcess create_model = [''model'']"
| "assigns Legacy_GaussianProcess fit = sklearn_fit"
| "assigns Legacy_GaussianProcess predict = []"
| "assigns Legacy_GaussianProcess update = [''model''] @ sklearn_fit"
| "assigns VanillaGaussianProcess create_model = [''model'']"
| "assigns VanillaGaussianProcess fit = sklearn_fit"
| "assigns VanillaGaussianProcess predict = []"
| "assigns VanillaGaussianProcess update = [''model''] @ sklearn_fit"
| "assigns Legacy_GaussianProcessTFP create_model = [''gp_joint_model'']"
| "assigns Legacy_GaussianProcessTFP fit = tfp_fit"
| "assigns Legacy_GaussianProcessTFP predict = []"
| "assigns Legacy_GaussianProcessTFP update = tfp_fit"
| "assigns GaussianProcessTFP create_model = [''gp_joint_model'']"
| "assigns GaussianProcessTFP fit = tfp_fit"
| "assigns GaussianProcessTFP predict = []"
| "assigns GaussianProcessTFP update = tfp_fit"
| "assigns Legacy_NN create_model = [''model'']"
| "assigns Legacy_NN m = []"
| "assigns Legacy_Prob_NN create_model = [''model'']"
| "assigns Legacy_Prob_NN m = []"
| "assigns Legacy_Bayesian_NN create_model = [''model'']"
| "assigns Legacy_Bayesian_NN fit = [''X'', ''y'']"
| "assigns Legacy_Bayesian_NN m = []"
| "assigns Vanilla_NN create_model = [''model'']"
| "assigns Vanilla_NN predict = [''preds'']"
| "assigns Vanilla_NN m = []"
| "assigns Vanilla_BayesianNN create_model = [''model'']"
| "assigns Vanilla_BayesianNN fit = [''X'', ''y'']"
| "assigns Vanilla_BayesianNN predict = [''predictions'']"
| "assigns Vanilla_BayesianNN update = []"
| "assigns c create_model = torch_create_model"
| "assigns c fit = torch_fit"
| "assigns c predict = torch_predict"
| "assigns c update = [''optimizer''] @ torch_fit"

text \<open>
  A value of an attribute, and the attribute dictionary of an instance. Of the constructors
  only that of the legacy \<open>Bayesian_NN\<close> assigns \<open>is_probabilistic\<close>
  (\<open>self.is_probabilistic = True\<close>); the other attributes a constructor sets take the
  values \<open>vals\<close> gives them.
\<close>

datatype pyval = PyBool bool | PyNone | PyObject nat

type_synonym attrs = "string \<rightharpoonup> pyval"

definition construct :: "surrogate_class \<Rightarrow> attrs \<Rightarrow> attrs" where
  "construct c vals =
     (if c = Legacy_Bayesian_NN
      then (vals(''is_probabilistic'' := None))(''is_probabilistic'' \<mapsto> PyBool True)
      else vals(''is_probabilistic'' := None))"

text \<open>A call of a method rebinds some of the attributes the method assigns: those that
  \<open>vals\<close> has a value for (the others were not reached, by a branch or an exception).\<close>

definition call :: "surrogate_class \<Rightarrow> operation \<Rightarrow> attrs \<Rightarrow> attrs \<Rightarrow> attrs" where
  "call c m vals d = d ++ (vals |` set (assigns c m))"

fun run :: "surrogate_class \<Rightarrow> (operation \<times> attrs) list \<Rightarrow> attrs \<Rightarrow> attrs" where
  "run c [] d = d"
| "run c ((m, vals) # rest) d = run c rest (call c m vals d)"

text \<open>\<open>obj.is_probabilistic\<close>: the instance dictionary first, then the class.\<close>

definition is_probabilistic :: "surrogate_class \<Rightarrow> attrs \<Rightarrow> pyval" where
  "is_probabilistic c d =
     (case d ''is_probabilistic'' of Some v \<Rightarrow> v | None \<Rightarrow> PyBool (class_is_probabilistic c))"


section \<open>Notions used in the statements and proofs\<close>

text \<open>Whether a call returned, and the exception it raised otherwise.\<close>

fun returned :: "'s outcome \<Rightarrow> bool" where
  "returned (Returned s) = True"
| "returned (Raised e s) = False"

fun raised :: "'s outcome \<Rightarrow> error option" where
  "raised (Returned s) = None"
| "raised (Raised e s) = Some e"

text \<open>\<open>shekel\<close> over the reals, row by row: the two loops on the entries of one row
  of the input.\<close>

definition inner_row :: "real list \<Rightarrow> nat \<Rightarrow> real" where
  "inner_row r i =
     fold (\<lambda>j a. a + (r ! j - shekel_C real_arith ! j ! i) * (r ! j - shekel_C real_arith ! j ! i))
          [0..<4] 0"

definition outer_row :: "real list \<Rightarrow> real" where
  "outer_row r = fold (\<lambda>i a. a + 1 / (inner_row r i + shekel_b real_arith ! i)) [0..<10] 0"

definition columns4 :: "'a list list \<Rightarrow> 'a list list" where
  "columns4 X = map (\<lambda>j. map (\<lambda>r. r ! j) X) [0..<4]"

text \<open>The row \<open>[1.0, 1.0, 5.0, 1.0]\<close> as a float64 matrix.\<close>

definition demo_row_f64 :: "f64 list list" where
  "demo_row_f64 =
     [[f_lit f64_arith 1 1, f_lit f64_arith 1 1, f_lit f64_arith 5 1, f_lit f64_arith 1 1]]"

text \<open>
  The training loop of \<open>GaussianProcessRegression.fit\<close>: the state of the variables when
  \<open>i\<close> iterations have run and none has left the loop, whether iteration \<open>i\<close> leaves
  the loop, and the variables after one run of the body.
\<close>

definition loop_inv :: "'p trainer \<Rightarrow> nat \<Rightarrow> 'p loop_vars \<Rightarrow> bool" where
  "loop_inv t i v \<longleftrightarrow>
     params v = (adam_step t ^^ i) (initial t) \<and> steps v = i \<and> length (vec_loss v) = i \<and>
     loss_0 v = (case i of 0 \<Rightarrow> PInf | Suc j \<Rightarrow> Finite (loss_at t j))"

definition stops_at :: "'p trainer \<Rightarrow> real option \<Rightarrow> nat \<Rightarrow> bool" where
  "stops_at t mlr i =
     (case mlr of None \<Rightarrow> False | Some r \<Rightarrow> r \<noteq> 0 \<and> lt_zero (loss_ratio_at t r i))"

definition after_body :: "'p trainer \<Rightarrow> real option \<Rightarrow> 'p loop_vars \<Rightarrow> 'p loop_vars" where
  "after_body t mlr v =
     v\<lparr>loss := Some (loss_of t (params v)), vec_loss := vec_loss v @ [loss_of t (params v)],
        params := adam_step t (params v), steps := Suc (steps v),
        loss_ratio := compute_loss_ratio mlr (loss_0 v) (loss_of t (params v)),
        noise_std := Some (sqrt (noise_of t (adam_step t (params v))))\<rparr>"

text \<open>Concrete inputs: a training run whose losses are 5, 3, 4, 1, 1, a regression
  surrogate with two training points and at most five iterations, and a classical
  surrogate fitted on two points.\<close>

definition demo_trainer :: "nat trainer" where
  "demo_trainer =
     \<lparr> initial = 0, loss_of = (\<lambda>p. [5, 3, 4, 1, 1] ! p), adam_step = Suc, noise_of = (\<lambda>p. 1) \<rparr>"

definition demo_GPR :: "real option \<Rightarrow> nat GaussianProcessRegression" where
  "demo_GPR mlr =
     \<lparr> GPR_train_X = [[0], [1]], GPR_train_y = [0, 1], GPR_training_max_iter = 5,
       GPR_learning_rate = 1 / 10, GPR_min_loss_rate = mlr, GPR_noise_std = None,
       GPR_vec_loss = None, GPR_params = None, GPR_steps = 0 \<rparr>"

definition demo_X :: ndarray where
  "demo_X = \<lparr> shape = [2, 1], entries = [1, 2] \<rparr>"

definition demo_y :: ndarray where
  "demo_y = \<lparr> shape = [2], entries = [3, 4] \<rparr>"


section \<open>The benchmark functions\<close>

lemma column_column_stack0: "length x = length y \<Longrightarrow> column (column_stack x y) 0 = Inr x"
  unfolding column_def column_stack_def
  by (induction x y rule: list_induct2) (auto simp: list_all_iff split: if_splits)

lemma column_column_stack1:
  "length x = length y \<Longrightarrow> column (column_stack x y) (Suc 0) = Inr y"
  unfolding column_def column_stack_def
  by (induction x y rule: list_induct2) (auto simp: list_all_iff split: if_splits)

text \<open>
  Claim C7. For vectors \<open>x\<close> and \<open>y\<close> of one length, \<open>six_hump_camel_2D\<close> on the matrix
  with the columns \<open>x\<close> and \<open>y\<close> returns what \<open>six_hump_camel_2D_2input\<close> returns on
  \<open>x\<close> and \<open>y\<close>.
\<close>

theorem six_hump_camel_2D_agrees:
  "length x = length y \<Longrightarrow>
     six_hump_camel_2D (column_stack x y) = six_hump_camel_2D_2input x y"
  by (simp add: six_hump_camel_2D_def six_hump_camel_2D_2input_def
        column_column_stack0 column_column_stack1 broadcast_def)

theorem six_hump_camel_2D_agrees_witness:
  "six_hump_camel_2D (column_stack [1, 0] [0, 1]) = six_hump_camel_2D_2input [1, 0] [0, 1]
   \<and> six_hump_camel_2D_2input [1, 0] [0, 1] = Inr [67 / 30, 0]"
  using six_hump_camel_2D_agrees [of "[1, 0]" "[0, 1]"]
  by (simp add: six_hump_camel_2D_2input_def broadcast_def np_power_def vadd_def vmul_def
        sadd_def smul_def vdivs_def)

lemma np_mean_replicate: "0 < n \<Longrightarrow> np_mean (replicate n c) = Some c"
  by (simp add: np_mean_def sum_list_replicate)

text \<open>
  Claim C6, as stated: \<open>ackley_nd\<close> with its default parameters returns \<open>e - 1\<close> at the zero
  vector. It does not: at the zero vector of dimension one the value is not \<open>e - 1\<close>.
\<close>

theorem ackley_nd_origin_counterexample:
  "ackley_nd_default (Arr1 [0]) \<noteq> [Some (exp 1 - 1)]"
  by (simp add: ackley_nd_default_def ackley_nd_def np_mean_def)

text \<open>
  Claim C6, amended. For every dimension \<open>n \<ge> 1\<close>, \<open>ackley_nd\<close> with its default
  parameters returns \<open>0\<close> at the zero vector of dimension \<open>n\<close>: \<open>t1\<close> is \<open>- a\<close> and \<open>t2\<close>
  is \<open>- e\<close>, so the result is \<open>- a - e + a + e\<close>.
\<close>

theorem ackley_nd_origin:
  "1 \<le> n \<Longrightarrow> ackley_nd_default (Arr1 (replicate n 0)) = [Some 0]"
  by (simp add: ackley_nd_default_def ackley_nd_def np_mean_replicate)

theorem ackley_nd_origin_witness:
  "(1::nat) \<le> 3 \<and> ackley_nd_default (Arr1 [0, 0, 0]) = [Some 0]"
  using ackley_nd_origin [of 3]
  by (simp add: numeral_3_eq_3)

lemma real_arith_simps:
  "f_add real_arith = (+)" "f_sub real_arith = (-)" "f_mul real_arith = (*)"
  "f_div real_arith = (/)" "f_lit real_arith p q = of_int p / of_int q"
  by (simp_all add: real_arith_def)

lemma map2_map: "map2 f (map g X) (map h X) = map (\<lambda>r. f (g r) (h r)) X"
  by (induction X) simp_all

lemma replicate_as_map: "replicate (length X) c = map (\<lambda>r. c) X"
  by (induction X) simp_all

lemma inner_fold:
  "set js \<subseteq> {..<4} \<Longrightarrow>
   fold (\<lambda>j inner. map2 (f_add real_arith) inner
            (map (\<lambda>d. f_mul real_arith d d)
               (map (\<lambda>a. f_sub real_arith a (shekel_C real_arith ! j ! i)) (columns4 X ! j))))
        js (map g X)
     = map (\<lambda>r. fold (\<lambda>j a. a + (r ! j - shekel_C real_arith ! j ! i)
                                  * (r ! j - shekel_C real_arith ! j ! i)) js (g r)) X"
proof (induction js arbitrary: g)
  case Nil
  show ?case by simp
next
  case (Cons j js)
  from Cons.prems have j: "j < 4" and js: "set js \<subseteq> {..<4}" by auto
  from j have col: "columns4 X ! j = map (\<lambda>r. r ! j) X"
    by (simp add: columns4_def del: upt_Suc)
  have step: "map2 (f_add real_arith) (map g X)
        (map (\<lambda>d. f_mul real_arith d d)
           (map (\<lambda>a. f_sub real_arith a (shekel_C real_arith ! j ! i)) (columns4 X ! j)))
     = map (\<lambda>r. g r + (r ! j - shekel_C real_arith ! j ! i)
                      * (r ! j - shekel_C real_arith ! j ! i)) X"
    by (simp add: col real_arith_simps map2_map comp_def)
  show ?case
    by (simp only: fold_Cons comp_apply step Cons.IH [OF js])
qed

lemma shekel_inner_rows:
  "shekel_inner real_arith (columns4 X) (length X) i = map (\<lambda>r. inner_row r i) X"
proof -
  have zero: "f_lit real_arith 0 1 = 0"
    by (simp add: real_arith_simps)
  show ?thesis
    unfolding shekel_inner_def inner_row_def replicate_as_map zero
    by (rule inner_fold) auto
qed

lemma outer_fold:
  "fold (\<lambda>i outer. map2 (f_add real_arith) outer
            (map (\<lambda>a. f_div real_arith (f_lit real_arith 1 1) a)
               (map (\<lambda>a. f_add real_arith a (shekel_b real_arith ! i))
                  (shekel_inner real_arith (columns4 X) (length X) i))))
        is (map g X)
     = map (\<lambda>r. fold (\<lambda>i a. a + 1 / (inner_row r i + shekel_b real_arith ! i)) is (g r)) X"
proof (induction "is" arbitrary: g)
  case Nil
  show ?case by simp
next
  case (Cons i "is")
  have step:
    "map2 (f_add real_arith) (map g X)
        (map (\<lambda>a. f_div real_arith (f_lit real_arith 1 1) a)
           (map (\<lambda>a. f_add real_arith a (shekel_b real_arith ! i))
              (shekel_inner real_arith (columns4 X) (length X) i)))
       = map (\<lambda>r. g r + 1 / (inner_row r i + shekel_b real_arith ! i)) X"
    by (simp add: shekel_inner_rows real_arith_simps map2_map comp_def)
  show ?case
    by (simp only: fold_Cons comp_apply step Cons.IH)
qed

lemma shekel_outer_rows:
  "shekel_outer real_arith (columns4 X) (length X) = map outer_row X"
proof -
  have zero: "f_lit real_arith 0 1 = 0"
    by (simp add: real_arith_simps)
  show ?thesis
    unfolding shekel_outer_def outer_row_def replicate_as_map zero
    by (simp only: outer_fold)
qed

lemma upt4: "[0..<4] = [0, Suc 0, 2, 3]"
  by (simp add: upt_rec)

lemma column_rows:
  "list_all (\<lambda>r. length r = 4) X \<Longrightarrow> j < 4 \<Longrightarrow> column X j = Inr (map (\<lambda>r. r ! j) X)"
  by (auto simp: column_def list_all_iff)

lemma shekel_rows:
  assumes "list_all (\<lambda>r. length r = 4) X"
  shows "shekel real_arith X = Inr (map (\<lambda>r. - 1 * outer_row r) X)"
proof -
  have cols: "[map (\<lambda>r. r ! 0) X, map (\<lambda>r. r ! 1) X, map (\<lambda>r. r ! 2) X, map (\<lambda>r. r ! 3) X]
      = columns4 X"
    by (simp add: columns4_def upt4)
  have "shekel real_arith X
      = Inr (map (\<lambda>a. f_mul real_arith (f_lit real_arith (- 1) 1) a)
               (shekel_outer real_arith (columns4 X) (length X)))"
    unfolding shekel_def cols [symmetric]
    using assms by (simp add: column_rows)
  then show ?thesis
    by (simp add: shekel_outer_rows real_arith_simps)
qed

lemma shekel_C_rows:
  "shekel_C ar ! 0 = shekel_C ar ! 2" "shekel_C ar ! Suc 0 = shekel_C ar ! 3"
  by (simp_all add: shekel_C_def)

lemma inner_row_swap02:
  "length r = 4 \<Longrightarrow> inner_row (r[0 := r ! 2, 2 := r ! 0]) i = inner_row r i"
  by (simp add: inner_row_def upt4 shekel_C_rows)

lemma inner_row_swap13:
  "length r = 4 \<Longrightarrow> inner_row (r[Suc 0 := r ! 3, 3 := r ! Suc 0]) i = inner_row r i"
  by (simp add: inner_row_def upt4 shekel_C_rows)

lemma swap_columns_width:
  "list_all (\<lambda>r. length r = 4) X \<Longrightarrow> list_all (\<lambda>r. length r = 4) (swap_columns i j X)"
  by (simp add: swap_columns_def list_all_iff)

text \<open>
  Claim C10, as stated: \<open>shekel(X)\<close> does not change when columns 0 and 2 of \<open>X\<close> are
  exchanged. The program computes in float64 and adds the four squares in the order of the
  columns: on the row \<open>[1.0, 1.0, 5.0, 1.0]\<close> it returns \<open>-8944036301422390 * 2 ^ -55\<close>
  (\<open>-0.2482468758730591\<close>), and on the row with columns 0 and 2 exchanged
  \<open>-8944036301422389 * 2 ^ -55\<close> (\<open>-0.24824687587305908\<close>).
\<close>

theorem shekel_swap_float64_counterexample:
  "shekel f64_arith demo_row_f64 = Inr [F64 (- 8944036301422390) (- 55)]
   \<and> shekel f64_arith (swap_columns 0 2 demo_row_f64) = Inr [F64 (- 8944036301422389) (- 55)]
   \<and> shekel f64_arith (swap_columns 0 2 demo_row_f64) \<noteq> shekel f64_arith demo_row_f64"
proof -
  have a: "shekel f64_arith demo_row_f64 = Inr [F64 (- 8944036301422390) (- 55)]"
    by code_simp
  have b: "shekel f64_arith (swap_columns 0 2 demo_row_f64)
      = Inr [F64 (- 8944036301422389) (- 55)]"
    by code_simp
  show ?thesis
    unfolding a b by simp
qed

text \<open>
  Claim C10, amended. For a matrix \<open>X\<close> of four columns, \<open>shekel\<close> evaluated in exact
  real arithmetic returns the same values when columns 0 and 2 of \<open>X\<close> are exchanged, and
  when columns 1 and 3 are exchanged (rows 0 and 2 of \<open>C\<close> are equal, and so are rows 1
  and 3, so each inner sum has the same four terms).
\<close>

theorem shekel_swap_invariant:
  assumes "list_all (\<lambda>r. length r = 4) X"
  shows "shekel real_arith (swap_columns 0 2 X) = shekel real_arith X
       \<and> shekel real_arith (swap_columns 1 3 X) = shekel real_arith X"
proof -
  have a: "\<forall>r \<in> set X. length r = 4"
    using assms by (simp add: list_all_iff)
  have "map (\<lambda>r. - 1 * outer_row r) (swap_columns 0 2 X) = map (\<lambda>r. - 1 * outer_row r) X"
    using a by (simp add: swap_columns_def outer_row_def inner_row_swap02)
  moreover
  have "map (\<lambda>r. - 1 * outer_row r) (swap_columns 1 3 X) = map (\<lambda>r. - 1 * outer_row r) X"
    using a by (simp add: swap_columns_def outer_row_def inner_row_swap13)
  ultimately show ?thesis
    by (simp add: shekel_rows [OF assms] shekel_rows [OF swap_columns_width [OF assms]])
qed

theorem shekel_swap_invariant_witness:
  "list_all (\<lambda>r. length r = 4) [[1, 2, 3, 4 :: real]] \<and>
   shekel real_arith [[3, 2, 1, 4]] = shekel real_arith [[1, 2, 3, 4]] \<and>
   shekel real_arith [[1, 4, 3, 2]] = shekel real_arith [[1, 2, 3, 4]]"
  using shekel_swap_invariant [of "[[1, 2, 3, 4]]"]
  by (simp add: swap_columns_def)

section \<open>normal_sp\<close>

lemma softplus_nonneg: "0 \<le> softplus x"
  unfolding softplus_def by (rule ln_ge_zero) (simp add: less_imp_le)

text \<open>
  Claim C9. For every matrix of parameters, every component of the scale of the
  distribution that \<open>normal_sp\<close> builds is at least \<open>1e-3\<close>.
\<close>

theorem normal_sp_scale_floor:
  "\<forall>r \<in> set (scale (normal_sp P)). \<forall>s \<in> set r. 1 / 1000 \<le> s"
  using softplus_nonneg by (auto simp: normal_sp_def)

theorem normal_sp_scale_floor_witness:
  "scale (normal_sp [[3, 0]]) = [[1 / 1000 + ln 2]] \<and> (1::real) / 1000 \<le> 1 / 1000 + ln 2"
  using normal_sp_scale_floor [of "[[3, 0]]"]
  by (simp add: normal_sp_def slice_columns_def softplus_def)


section \<open>predict of the neural-network surrogates\<close>

text \<open>
  Claim C3. On an instance of a deterministic or probabilistic neural-network surrogate
  whose \<open>model\<close> is \<open>None\<close>, \<open>predict\<close> returns \<open>None\<close> and raises nothing, whatever
  the input (and leaves the instance as it is).
\<close>

theorem predict_without_model:
  "(NN_model a = None \<longrightarrow> NN_predict kp a X = None)
   \<and> (Vanilla_NN_model b = None \<longrightarrow> Vanilla_NN_predict kp b X = (b, None))
   \<and> (Prob_NN_model c = None \<longrightarrow> Prob_NN_predict ks c M n rs = Inr None)
   \<and> (Bayesian_NN_model d = None \<longrightarrow> Bayesian_NN_predict ks d M n rs = Inr None)
   \<and> (Vanilla_BayesianNN_model e = None \<longrightarrow> Vanilla_BayesianNN_predict ks e M n = (e, Inr None))"
  by (simp add: NN_predict_def Vanilla_NN_predict_def Prob_NN_predict_def Bayesian_NN_predict_def
        Vanilla_BayesianNN_predict_def)

theorem predict_without_model_witness:
  "NN_predict (\<lambda>m X. X) \<lparr>NN_model = (None :: unit option)\<rparr> (Arr1 [1, 2]) = None
   \<and> snd (Vanilla_NN_predict (\<lambda>m X. X)
        \<lparr>Vanilla_NN_model = (None :: unit option), Vanilla_NN_epochs = 10,
          Vanilla_NN_batch_size = 32, Vanilla_NN_preds = None\<rparr> (Arr1 [1, 2])) = None
   \<and> Prob_NN_predict (\<lambda>m i X. X) \<lparr>Prob_NN_model = (None :: unit option)\<rparr> [[1, 2]] 50 True
       = Inr None
   \<and> Bayesian_NN_predict (\<lambda>m i X. X)
        \<lparr>Bayesian_NN_model = (None :: unit option), Bayesian_NN_X = None, Bayesian_NN_y = None\<rparr>
        [[1, 2]] 50 True = Inr None
   \<and> snd (Vanilla_BayesianNN_predict (\<lambda>m i X. X)
        \<lparr>Vanilla_BayesianNN_model = (None :: unit option), Vanilla_BayesianNN_predictions = None\<rparr>
        [[1, 2]] 50) = Inr None"
  using predict_without_model [of "\<lparr>NN_model = (None :: unit option)\<rparr>" "\<lambda>m X. X" "Arr1 [1, 2]"
      "\<lparr>Vanilla_NN_model = (None :: unit option), Vanilla_NN_epochs = 10,
         Vanilla_NN_batch_size = 32, Vanilla_NN_preds = None\<rparr>"
      "\<lparr>Prob_NN_model = (None :: unit option)\<rparr>" "\<lambda>m i X. X" "[[1, 2]]" 50 True
      "\<lparr>Bayesian_NN_model = (None :: unit option), Bayesian_NN_X = None, Bayesian_NN_y = None\<rparr>"
      "\<lparr>Vanilla_BayesianNN_model = (None :: unit option), Vanilla_BayesianNN_predictions = None\<rparr>"]
  by simp

text \<open>
  Claim C2 says that \<open>predict(X, iterations, return_samples=True)\<close> of \<open>Prob_NN\<close> and of
  the legacy \<open>Bayesian_NN\<close> returns the mean, the standard deviation and the matrix of the
  samples. With two passes that give the samples 1 and 3 for one input row, both methods
  return the pair of the mean 2 and the standard deviation 1, without the samples.
\<close>

theorem return_samples_dropped:
  "Prob_NN_predict (\<lambda>m i X. [[1 + 2 * real i]]) \<lparr>Prob_NN_model = Some ()\<rparr> [[0, 0]] 2 True
     = Inr (Some (MeanStd [Some 2] [Some 1]))
   \<and> Bayesian_NN_predict (\<lambda>m i X. [[1 + 2 * real i]])
        \<lparr>Bayesian_NN_model = Some (), Bayesian_NN_X = None, Bayesian_NN_y = None\<rparr> [[0, 0]] 2 True
     = Inr (Some (MeanStd [Some 2] [Some 1]))"
  by (simp add: Prob_NN_predict_def Bayesian_NN_predict_def np_reshape_1d_def set_column_def
        np_mean_def np_std_def upt_rec Let_def numeral_2_eq_2)

section \<open>The classical Gaussian Process surrogate: get_noise and update\<close>

text \<open>
  Claim C1 says that \<open>fit\<close> raises a configuration error exactly when the kernel given to
  the constructor has no additive white-noise component or more than one. \<open>get_noise\<close>
  scans the class attribute instead of that kernel: with the kernel
  \<open>WhiteKernel(1.0) + WhiteKernel(1.0)\<close>, \<open>fit\<close> returns and sets \<open>noise_std\<close> to 1; with
  \<open>RBF(1.0) + RBF(2.0)\<close>, and with \<open>WhiteKernel(1.0) + RBF(1.0)\<close>, it raises
  AttributeError.
\<close>

theorem get_noise_scans_class_kernel:
  "returned (GP_fit (\<lambda>k X y. Inr k)
       (GP_init default_kernel 10 (Some (Sum (WhiteKernel 1) (WhiteKernel 1)))) demo_X demo_y)
   \<and> GP_noise_std (state_of (GP_fit (\<lambda>k X y. Inr k)
       (GP_init default_kernel 10 (Some (Sum (WhiteKernel 1) (WhiteKernel 1)))) demo_X demo_y))
       = Some 1
   \<and> raised (GP_fit (\<lambda>k X y. Inr k)
       (GP_init default_kernel 10 (Some (Sum (RBF 1) (RBF 2)))) demo_X demo_y)
       = Some AttributeError
   \<and> raised (GP_fit (\<lambda>k X y. Inr k)
       (GP_init default_kernel 10 (Some (Sum (WhiteKernel 1) (RBF 1)))) demo_X demo_y)
       = Some AttributeError"
  by (simp add: GP_fit_def GP_init_def GP_create_model_def GP_get_noise_def GP_kernel_def
        white_kernel_attr_def default_kernel_def Let_def)






section \<open>The training loop of GaussianProcessRegression.fit\<close>

lemma body_ratio:
  "loop_inv t i v \<Longrightarrow>
   (truthy mlr \<and> (case compute_loss_ratio mlr (loss_0 v) (loss_of t (params v)) of None \<Rightarrow> False | Some lr \<Rightarrow> lt_zero lr))
     = stops_at t mlr i"
  by (cases mlr; cases i) (auto simp: loop_inv_def stops_at_def loss_at_def)

lemma train_loop_Suc:
  assumes "loop_inv t i v"
  shows "train_loop t mlr (Suc k) v =
     (if stops_at t mlr i then after_body t mlr v
      else train_loop t mlr k ((after_body t mlr v)\<lparr>loss_0 := Finite (loss_of t (params v))\<rparr>))"
  by (simp add: Let_def body_ratio [OF assms] after_body_def)

lemma loop_inv_step:
  "loop_inv t i v \<Longrightarrow>
   loop_inv t (Suc i) ((after_body t mlr v)\<lparr>loss_0 := Finite (loss_of t (params v))\<rparr>)"
  by (simp add: loop_inv_def loss_at_def after_body_def)

lemma loss_train_loop: "loss w \<noteq> None \<Longrightarrow> loss (train_loop t mlr k w) \<noteq> None"
  by (induction k arbitrary: w) (simp_all add: Let_def)

lemma train_loop_steps:
  "loop_inv t i v \<Longrightarrow>
   (let v' = train_loop t mlr k v; n = steps v' in
      i \<le> n \<and> n \<le> i + k \<and> length (vec_loss v') = n \<and>
      (\<forall>j. i \<le> j \<and> Suc j < n \<longrightarrow> \<not> stops_at t mlr j) \<and>
      (n < i + k \<longrightarrow> i < n \<and> stops_at t mlr (n - 1)) \<and>
      (loss v' = None \<longrightarrow> k = 0))"
proof (induction k arbitrary: i v)
  case 0
  then show ?case by (auto simp: loop_inv_def)
next
  case (Suc k)
  let ?w = "(after_body t mlr v)\<lparr>loss_0 := Finite (loss_of t (params v))\<rparr>"
  show ?case
  proof (cases "stops_at t mlr i")
    case True
    then have eq: "train_loop t mlr (Suc k) v = after_body t mlr v"
      by (simp only: train_loop_Suc [OF Suc.prems] if_True)
    show ?thesis
      unfolding eq using True Suc.prems by (auto simp: loop_inv_def Let_def after_body_def)
  next
    case False
    then have eq: "train_loop t mlr (Suc k) v = train_loop t mlr k ?w"
      by (simp only: train_loop_Suc [OF Suc.prems] if_False)
    have IH: "let v' = train_loop t mlr k ?w; n = steps v' in
      Suc i \<le> n \<and> n \<le> Suc i + k \<and> length (vec_loss v') = n \<and>
      (\<forall>j. Suc i \<le> j \<and> Suc j < n \<longrightarrow> \<not> stops_at t mlr j) \<and>
      (n < Suc i + k \<longrightarrow> Suc i < n \<and> stops_at t mlr (n - 1)) \<and>
      (loss v' = None \<longrightarrow> k = 0)"
      by (rule Suc.IH [OF loop_inv_step [OF Suc.prems]])
    have l: "loss (train_loop t mlr k ?w) \<noteq> None"
      by (rule loss_train_loop) (simp add: after_body_def)
    define n where "n = steps (train_loop t mlr k ?w)"
    from IH have a: "Suc i \<le> n" and b: "n \<le> Suc i + k"
      and c: "length (vec_loss (train_loop t mlr k ?w)) = n"
      and d: "\<And>j. Suc i \<le> j \<Longrightarrow> Suc j < n \<Longrightarrow> \<not> stops_at t mlr j"
      and e: "n < Suc i + k \<Longrightarrow> Suc i < n \<and> stops_at t mlr (n - 1)"
      by (simp_all add: Let_def n_def)
    have d': "\<not> stops_at t mlr j" if "i \<le> j" "Suc j < n" for j
    proof (cases "j = i")
      case True
      with False show ?thesis by simp
    next
      case False
      with that have "Suc i \<le> j" by simp
      then show ?thesis using that d by simp
    qed
    show ?thesis
      unfolding eq Let_def n_def [symmetric] using a b c d' e l
      by auto
  qed
qed


lemma loop_inv_start:
  "loop_inv t 0 \<lparr> params = initial t, loss_0 = PInf, loss = None, loss_ratio = None,
                     vec_loss = [], noise_std = ns, steps = 0 \<rparr>"
  by (simp add: loop_inv_def)

lemma GPR_fit_state:
  assumes "s = state_of (GPR_fit backend self tX ty)"
    and "length (GPR_train_y s) = length (GPR_train_X s)"
  shows "\<exists>v0. loop_inv (backend (GPR_train_X s) (GPR_train_y s) (GPR_learning_rate s)) 0 v0 \<and>
     GPR_steps s = steps (train_loop (backend (GPR_train_X s) (GPR_train_y s) (GPR_learning_rate s))
                       (GPR_min_loss_rate self) (GPR_training_max_iter self) v0) \<and>
     GPR_vec_loss s = Some (vec_loss (train_loop (backend (GPR_train_X s) (GPR_train_y s) (GPR_learning_rate s))
                       (GPR_min_loss_rate self) (GPR_training_max_iter self) v0))"
proof -
  define self1 where "self1 = (case (tX, ty) of
                     (Some X, Some y) \<Rightarrow> self\<lparr>GPR_train_X := X, GPR_train_y := y\<rparr>
                   | _ \<Rightarrow> self)"
  have keep: "GPR_min_loss_rate self1 = GPR_min_loss_rate self"
    "GPR_training_max_iter self1 = GPR_training_max_iter self"
    by (simp_all add: self1_def split: option.splits)
  have data: "GPR_train_X s = GPR_train_X self1" "GPR_train_y s = GPR_train_y self1"
    "GPR_learning_rate s = GPR_learning_rate self1"
    unfolding assms(1) GPR_fit_def self1_def [symmetric]
    by (simp_all add: Let_def split: option.splits)
  from assms(2) have ok: "length (GPR_train_y self1) = length (GPR_train_X self1)"
    by (simp add: data)
  let ?t = "backend (GPR_train_X self1) (GPR_train_y self1) (GPR_learning_rate self1)"
  let ?v0 = "\<lparr> params = initial ?t, loss_0 = PInf, loss = None, loss_ratio = None,
                     vec_loss = [], noise_std = GPR_noise_std self1, steps = 0 \<rparr>"
  have "GPR_steps s = steps (train_loop ?t (GPR_min_loss_rate self) (GPR_training_max_iter self) ?v0)"
    and "GPR_vec_loss s = Some (vec_loss (train_loop ?t (GPR_min_loss_rate self) (GPR_training_max_iter self) ?v0))"
    unfolding assms(1) GPR_fit_def self1_def [symmetric]
    using ok by (simp_all add: Let_def keep split: option.splits)
  then show ?thesis
    unfolding data using loop_inv_start by blast
qed

text \<open>
  Claim C5, as stated: when \<open>min_loss_rate\<close> is configured, \<open>fit\<close> stops right after the
  first iteration whose loss ratio is below zero. With \<open>min_loss_rate = 0.0\<close>, at most five
  iterations and the losses 5, 3, 4, 1, 1, the loss ratio of the third iteration is
  \<open>(3 - 4) - 0.0 * 4 < 0\<close> (and those of the first two are not below zero), and yet all
  five iterations run: the guard \<open>if self.min_loss_rate:\<close> is false for \<open>0.0\<close>.
\<close>

theorem GPR_fit_zero_rate_counterexample:
  "GPR_min_loss_rate (demo_GPR (Some 0)) = Some 0
   \<and> GPR_training_max_iter (demo_GPR (Some 0)) = 5
   \<and> \<not> lt_zero (loss_ratio_at demo_trainer 0 0)
   \<and> \<not> lt_zero (loss_ratio_at demo_trainer 0 1)
   \<and> lt_zero (loss_ratio_at demo_trainer 0 2)
   \<and> GPR_steps (state_of (GPR_fit (\<lambda>X y lr. demo_trainer) (demo_GPR (Some 0)) None None)) = 5"
  by (simp add: GPR_fit_def demo_GPR_def demo_trainer_def loss_at_def Let_def eval_nat_numeral)

text \<open>
  Claim C5, amended. For a call of \<open>fit\<close> on data whose numbers of rows agree: the body
  of the loop runs at most \<open>training_max_iter\<close> times; \<open>vec_loss\<close> has one entry for each
  run; when \<open>min_loss_rate\<close> is a number other than zero, the loop ends right after the
  first iteration whose loss ratio \<open>(previous_loss - current_loss) - min_loss_rate *
  current_loss\<close> is below zero, and runs \<open>training_max_iter\<close> times when there is none;
  when \<open>min_loss_rate\<close> is \<open>None\<close> or zero, it runs \<open>training_max_iter\<close> times.
\<close>

theorem GPR_fit_iterations:
  assumes "s = state_of (GPR_fit backend self tX ty)"
    and "length (GPR_train_y s) = length (GPR_train_X s)"
    and "t = backend (GPR_train_X s) (GPR_train_y s) (GPR_learning_rate s)"
  shows "GPR_steps s \<le> GPR_training_max_iter self
     \<and> (\<exists>ls. GPR_vec_loss s = Some ls \<and> length ls = GPR_steps s)
     \<and> (\<forall>r. GPR_min_loss_rate self = Some r \<and> r \<noteq> 0 \<longrightarrow>
          (\<forall>f < GPR_training_max_iter self.
              lt_zero (loss_ratio_at t r f) \<and> (\<forall>j < f. \<not> lt_zero (loss_ratio_at t r j))
                \<longrightarrow> GPR_steps s = Suc f)
          \<and> ((\<forall>f < GPR_training_max_iter self. \<not> lt_zero (loss_ratio_at t r f))
                \<longrightarrow> GPR_steps s = GPR_training_max_iter self))
     \<and> (\<not> truthy (GPR_min_loss_rate self) \<longrightarrow> GPR_steps s = GPR_training_max_iter self)"
proof -
  let ?N = "GPR_training_max_iter self" and ?mlr = "GPR_min_loss_rate self"
  from GPR_fit_state [OF assms(1,2)] obtain v0 where
    inv: "loop_inv t 0 v0" and
    st: "GPR_steps s = steps (train_loop t ?mlr ?N v0)" and
    vl: "GPR_vec_loss s = Some (vec_loss (train_loop t ?mlr ?N v0))"
    unfolding assms(3) by blast
  define n where "n = GPR_steps s"
  from train_loop_steps [OF inv, of ?mlr ?N]
  have a: "n \<le> ?N" and b: "length (vec_loss (train_loop t ?mlr ?N v0)) = n"
    and c: "\<And>j. Suc j < n \<Longrightarrow> \<not> stops_at t ?mlr j"
    and d: "n < ?N \<Longrightarrow> 0 < n \<and> stops_at t ?mlr (n - 1)"
    by (simp_all add: Let_def st [symmetric] n_def)
  have first: "n = Suc f"
    if "?mlr = Some r" "r \<noteq> 0" "f < ?N" "lt_zero (loss_ratio_at t r f)"
       "\<forall>j < f. \<not> lt_zero (loss_ratio_at t r j)" for r f
  proof -
    have sf: "stops_at t ?mlr f" using that by (simp add: stops_at_def)
    have "\<not> Suc f < n" using c [of f] sf by blast
    moreover have "\<not> n < Suc f"
    proof
      assume lt: "n < Suc f"
      with that(3) have "n < ?N" by simp
      from d [OF this] have "0 < n" and "stops_at t ?mlr (n - 1)" by simp_all
      then have "lt_zero (loss_ratio_at t r (n - 1))" using that(1) by (simp add: stops_at_def)
      moreover have "n - 1 < f" using lt \<open>0 < n\<close> by simp
      ultimately show False using that(5) by blast
    qed
    ultimately show ?thesis by simp
  qed
  have none: "n = ?N" if "\<forall>f < ?N. \<not> stops_at t ?mlr f"
  proof (rule ccontr)
    assume "n \<noteq> ?N"
    with a have lt: "n < ?N" by simp
    from d [OF lt] have "0 < n" and "stops_at t ?mlr (n - 1)" by simp_all
    moreover have "n - 1 < ?N" using lt by simp
    ultimately show False using that by blast
  qed
  have all: "n = ?N" if "?mlr = Some r" "\<forall>f < ?N. \<not> lt_zero (loss_ratio_at t r f)" for r
    using none that by (simp add: stops_at_def)
  have falsy: "n = ?N" if "\<not> truthy ?mlr"
  proof -
    have "\<not> stops_at t ?mlr f" for f
      using that by (cases ?mlr) (simp_all add: stops_at_def)
    then show ?thesis using none by blast
  qed
  show ?thesis
    unfolding n_def [symmetric] using a b vl first all falsy by (simp add: n_def)
qed


theorem GPR_fit_iterations_witness:
  "GPR_steps (state_of (GPR_fit (\<lambda>X y lr. demo_trainer) (demo_GPR (Some (1 / 10))) None None)) = 3
   \<and> GPR_vec_loss (state_of (GPR_fit (\<lambda>X y lr. demo_trainer) (demo_GPR (Some (1 / 10))) None None))
       = Some [5, 3, 4]
   \<and> lt_zero (loss_ratio_at demo_trainer (1 / 10) 2)
   \<and> \<not> lt_zero (loss_ratio_at demo_trainer (1 / 10) 1)
   \<and> \<not> lt_zero (loss_ratio_at demo_trainer (1 / 10) 0)"
proof -
  let ?s = "state_of (GPR_fit (\<lambda>X y lr. demo_trainer) (demo_GPR (Some (1 / 10))) None None)"
  have run: "GPR_vec_loss ?s = Some [5, 3, 4]"
    by (simp add: GPR_fit_def demo_GPR_def demo_trainer_def Let_def eval_nat_numeral)
  have data: "length (GPR_train_y ?s) = length (GPR_train_X ?s)"
    by (simp add: GPR_fit_def demo_GPR_def demo_trainer_def Let_def eval_nat_numeral)
  have r0: "\<not> lt_zero (loss_ratio_at demo_trainer (1 / 10) 0)"
    by (simp add: demo_trainer_def loss_at_def)
  have r1: "\<not> lt_zero (loss_ratio_at demo_trainer (1 / 10) 1)"
    by (simp add: demo_trainer_def loss_at_def eval_nat_numeral)
  have r2: "lt_zero (loss_ratio_at demo_trainer (1 / 10) 2)"
    by (simp add: demo_trainer_def loss_at_def eval_nat_numeral)
  have before: "\<forall>j<2. \<not> lt_zero (loss_ratio_at demo_trainer (1 / 10) j)"
    using r0 r1 by (simp add: less_Suc_eq eval_nat_numeral)
  have rate: "GPR_min_loss_rate (demo_GPR (Some (1 / 10))) = Some (1 / 10) \<and> (1 / 10 :: real) \<noteq> 0"
    and bound: "2 < GPR_training_max_iter (demo_GPR (Some (1 / 10)))"
    by (simp_all add: demo_GPR_def)
  have "GPR_steps ?s = Suc 2"
    using GPR_fit_iterations [OF refl data refl] rate bound r2 before by blast
  then show ?thesis
    using run r0 r1 r2 by simp
qed

section \<open>is_probabilistic over the life of an instance\<close>

lemma assigns_not_flag: "''is_probabilistic'' \<notin> set (assigns c m)"
  by (cases c; cases m)
     (simp_all add: torch_create_model_def torch_fit_def torch_predict_def tfp_fit_def
        sklearn_fit_def)

lemma call_flag: "call c m vals d ''is_probabilistic'' = d ''is_probabilistic''"
  by (simp add: call_def map_add_def restrict_map_def assigns_not_flag)

lemma run_flag: "run c calls d ''is_probabilistic'' = d ''is_probabilistic''"
  by (induction calls arbitrary: d) (auto simp: call_flag)

text \<open>
  Claim C8. For an instance of any surrogate class, after construction and any sequence of
  calls of \<open>create_model\<close>, \<open>fit\<close>, \<open>predict\<close> and \<open>update\<close>, \<open>is_probabilistic\<close> is
  the constant of the class; that constant is \<open>False\<close> for the deterministic networks and
  \<open>True\<close> for every other class (the Gaussian process families and the Bayesian and
  heteroscedastic networks).
\<close>

theorem is_probabilistic_fixed:
  "is_probabilistic c (run c calls (construct c vals)) = PyBool (class_is_probabilistic c)
   \<and> class_is_probabilistic c = (\<not> deterministic_NN c)"
  by (cases c) (simp_all add: is_probabilistic_def run_flag construct_def)

theorem is_probabilistic_fixed_witness:
  "is_probabilistic Vanilla_NN
     (run Vanilla_NN
        [(create_model, [''model'' \<mapsto> PyObject 1]),
         (predict, [''preds'' \<mapsto> PyObject 2, ''is_probabilistic'' \<mapsto> PyBool True])]
        (construct Vanilla_NN [''model'' \<mapsto> PyNone]))
     = PyBool False"
  using is_probabilistic_fixed [of Vanilla_NN
      "[(create_model, [''model'' \<mapsto> PyObject 1]),
        (predict, [''preds'' \<mapsto> PyObject 2, ''is_probabilistic'' \<mapsto> PyBool True])]"
      "[''model'' \<mapsto> PyNone]"]
  by simp

end
